theory Spec2Isabelle
  imports Complex_Main
begin

section \<open>Text recognition: plausibility filter and fusion (core/ocr\_engine.py)\<close>

text \<open>
  A Python \<open>str\<close> is modelled as a \<open>string\<close>, one \<open>char\<close> per code point, for the
  code points below 256. \<open>isspace\<close> and \<open>isalnum\<close> are \<open>str.isspace\<close> and
  \<open>str.isalnum\<close> on that range; \<open>strip\<close> is \<open>str.strip()\<close> without arguments.
  Confidences and times are Python floats; they are modelled as rationals, with exact
  arithmetic and no NaN.
\<close>

definition isspace :: "char \<Rightarrow> bool" where
  "isspace c =
     (let n = (of_char c :: nat)
      in (9 \<le> n \<and> n \<le> 13) \<or> (28 \<le> n \<and> n \<le> 32) \<or> n = 133 \<or> n = 160)"

definition isalnum :: "char \<Rightarrow> bool" where
  "isalnum c =
     (let n = (of_char c :: nat)
      in (48 \<le> n \<and> n \<le> 57) \<or> (65 \<le> n \<and> n \<le> 90) \<or> (97 \<le> n \<and> n \<le> 122)
         \<or> n = 170 \<or> n = 178 \<or> n = 179 \<or> n = 181 \<or> n = 185 \<or> n = 186
         \<or> (188 \<le> n \<and> n \<le> 190) \<or> (192 \<le> n \<and> n \<le> 214)
         \<or> (216 \<le> n \<and> n \<le> 246) \<or> (248 \<le> n \<and> n \<le> 255))"

definition strip :: "string \<Rightarrow> string" where
  "strip s = rev (dropWhile isspace (rev (dropWhile isspace s)))"

text \<open>\<open>OCREngine._is_plausible_text\<close>, with \<open>self.min_text_len\<close> as first argument.\<close>

definition is_plausible_text :: "int \<Rightarrow> string \<Rightarrow> bool" where
  "is_plausible_text min_text_len txt =
     (if txt = [] then False
      else let stripped = strip txt
           in if int (length stripped) < min_text_len then False
              else if list_ex isalnum stripped then True
              else False)"

text \<open>\<open>OCRResult\<close>: the constructor defaults are \<open>boxes = []\<close>, \<open>confidence = 0.0\<close>,
  \<open>engine = ""\<close>.\<close>

record OCRResult =
  ocr_text :: string
  ocr_boxes :: "(int \<times> int \<times> int \<times> int) list"
  ocr_confidence :: rat
  ocr_engine :: string

definition empty_result :: OCRResult where
  "empty_result = \<lparr>ocr_text = [], ocr_boxes = [], ocr_confidence = 0, ocr_engine = []\<rparr>"

type_synonym candidate = "OCRResult \<times> rat"

text \<open>The key of \<open>max(candidates, key=lambda rc: (len(rc[0].text or ""), rc[1]))\<close>.\<close>

definition cand_key :: "candidate \<Rightarrow> nat \<times> rat" where
  "cand_key rc = (length (ocr_text (fst rc)), snd rc)"

text \<open>Python's \<open>>\<close> on pairs: the first components decide unless they are equal.\<close>

fun key_gt :: "nat \<times> rat \<Rightarrow> nat \<times> rat \<Rightarrow> bool" where
  "key_gt (l1, c1) (l2, c2) = (if l1 \<noteq> l2 then l1 > l2 else c1 > c2)"

text \<open>Python's \<open>max\<close>: the running best is replaced only by a strictly greater key, so
  the first of several maximal candidates is returned.\<close>

fun max_from :: "candidate \<Rightarrow> candidate list \<Rightarrow> candidate" where
  "max_from best [] = best"
| "max_from best (x # xs) =
     max_from (if key_gt (cand_key x) (cand_key best) then x else best) xs"

datatype py_error = ValueError | QueueFull | QueueEmpty | TypeError | OtherError

definition select_best :: "candidate list \<Rightarrow> py_error + candidate" where
  "select_best candidates =
     (case candidates of [] \<Rightarrow> Inl ValueError | c # cs \<Rightarrow> Inr (max_from c cs))"

text \<open>A backend's result joins the candidates when its text is not empty
  (\<open>if res.text: candidates.append((res, conf))\<close>).\<close>

definition add_candidate :: "candidate \<Rightarrow> candidate list \<Rightarrow> candidate list" where
  "add_candidate rc candidates =
     (if ocr_text (fst rc) \<noteq> [] then candidates @ [rc] else candidates)"

text \<open>The end of \<open>OCREngine.extract_text\<close>, from the candidate list on.\<close>

definition fuse :: "int \<Rightarrow> rat \<Rightarrow> candidate list \<Rightarrow> OCRResult" where
  "fuse min_text_len min_confidence candidates =
     (if candidates = [] then empty_result
      else case select_best candidates of
        Inl e \<Rightarrow> empty_result
      | Inr (best_res, best_conf) \<Rightarrow>
          if ocr_text best_res \<noteq> [] \<and> int (length (ocr_text best_res)) \<ge> min_text_len
             \<and> best_conf \<ge> min_confidence
          then best_res else empty_result)"

text \<open>The backends' results of one frame, in the order \<open>extract_text\<close> runs them:
  Tesseract always, the others only when they are initialised (\<open>None\<close> otherwise).\<close>

definition collect_candidates ::
  "candidate \<Rightarrow> candidate option \<Rightarrow> candidate option \<Rightarrow> candidate option \<Rightarrow> candidate list" where
  "collect_candidates tess pad easy trocr =
     (let c0 = add_candidate tess [];
          c1 = (case pad of None \<Rightarrow> c0 | Some rc \<Rightarrow> add_candidate rc c0);
          c2 = (case easy of None \<Rightarrow> c1 | Some rc \<Rightarrow> add_candidate rc c1);
          c3 = (case trocr of None \<Rightarrow> c2 | Some rc \<Rightarrow> add_candidate rc c2)
      in c3)"

definition cand :: "string \<Rightarrow> rat \<Rightarrow> string \<Rightarrow> candidate" where
  "cand t c e = (\<lparr>ocr_text = t, ocr_boxes = [], ocr_confidence = c, ocr_engine = e\<rparr>, c)"

section \<open>Configuration (core/config.py, as read by the pipeline)\<close>

text \<open>
  The configuration is a dictionary of sections supplied from outside. The model keeps
  the string entries of \<open>cfg["camera"]\<close>, the numeric entries of \<open>cfg["camera"]\<close>,
  \<open>cfg["ocr"]\<close>, \<open>cfg["tts"]\<close> and \<open>cfg["app"]\<close>, and \<open>cfg["tts"]["voice"]\<close>
  (\<open>None\<close> when absent); any key may be present. \<open>dict_get\<close> is
  \<open>dict.get(key, default)\<close>, \<open>py_int\<close> is \<open>int()\<close> on a number (truncation towards
  zero), \<open>py_max2 a b\<close> is \<open>max(a, b)\<close>.
\<close>

record config =
  camera_str :: "string \<rightharpoonup> string"
  camera_num :: "string \<rightharpoonup> rat"
  ocr :: "string \<rightharpoonup> rat"
  tts_voice :: "string option"
  tts_num :: "string \<rightharpoonup> rat"
  app :: "string \<rightharpoonup> rat"

definition dict_get :: "('k \<rightharpoonup> 'v) \<Rightarrow> 'k \<Rightarrow> 'v \<Rightarrow> 'v" where
  "dict_get d k dflt = (case d k of None \<Rightarrow> dflt | Some v \<Rightarrow> v)"

definition py_int :: "rat \<Rightarrow> int" where
  "py_int r = (if 0 \<le> r then \<lfloor>r\<rfloor> else \<lceil>r\<rceil>)"

definition py_max2 :: "rat \<Rightarrow> rat \<Rightarrow> rat" where
  "py_max2 a b = (if b > a then b else a)"

text \<open>\<open>DEFAULT_CONFIG\<close>.\<close>

definition DEFAULT_CONFIG :: config where
  "DEFAULT_CONFIG =
     \<lparr>camera_str = [''source_type'' \<mapsto> ''opencv'', ''resolution'' \<mapsto> ''720p''],
      camera_num = [''camera_id'' \<mapsto> 0],
      ocr = [''capture_interval'' \<mapsto> 1/20, ''min_confidence'' \<mapsto> 2/5, ''min_text_len'' \<mapsto> 2],
      tts_voice = Some ''p335'',
      tts_num = [''speed'' \<mapsto> 1, ''volume'' \<mapsto> 9/10],
      app = [''max_history'' \<mapsto> 50]\<rparr>"

section \<open>The pipeline (core/pipeline.py)\<close>

datatype frame = Frame nat

datatype worker = Capture | Process | Tts

record history_entry =
  ts :: rat
  h_text :: string
  h_engine :: string
  h_confidence :: rat

text \<open>
  \<open>AssistivePipeline\<close>. A queue is the list of its items, oldest first; the sentinel
  \<open>None\<close> that \<open>stop\<close> injects is an item. \<open>spawned\<close> is not a field of the class: it
  records every \<open>Thread.start()\<close> the object has performed, in order.
\<close>

record pipeline =
  running :: bool
  frame_q :: "frame option list"
  text_q :: "string option list"
  history :: "history_entry list"
  threads :: "worker list"
  last_text :: string
  spawned :: "worker list"

definition new_pipeline :: pipeline where
  "new_pipeline =
     \<lparr>running = False, frame_q = [], text_q = [], history = [], threads = [],
      last_text = [], spawned = []\<rparr>"

text \<open>\<open>queue.Queue(maxsize)\<close>: \<open>maxsize = 0\<close> is unbounded. \<open>q_put\<close> is a \<open>put\<close> that
  finds no free slot (at once for \<open>put_nowait\<close>, when its timeout ends otherwise);
  \<open>q_get\<close> is \<open>get_nowait\<close>.\<close>

definition q_full :: "nat \<Rightarrow> 'a list \<Rightarrow> bool" where
  "q_full maxsize q = (0 < maxsize \<and> maxsize \<le> length q)"

definition q_put :: "nat \<Rightarrow> 'a \<Rightarrow> 'a list \<Rightarrow> py_error + 'a list" where
  "q_put maxsize x q = (if q_full maxsize q then Inl QueueFull else Inr (q @ [x]))"

definition q_get :: "'a list \<Rightarrow> py_error + ('a \<times> 'a list)" where
  "q_get q = (case q of [] \<Rightarrow> Inl QueueEmpty | x # q' \<Rightarrow> Inr (x, q'))"

text \<open>\<open>AssistivePipeline.start\<close>.\<close>

definition start :: "pipeline \<Rightarrow> pipeline" where
  "start p =
     (if running p then p
      else p\<lparr>running := True,
             threads := [Capture, Process, Tts],
             spawned := spawned p @ [Capture, Process, Tts]\<rparr>)"

text \<open>\<open>AssistivePipeline.stop\<close>: only \<open>queue.Full\<close> is caught around each \<open>put\<close>; joining
  the workers changes no field.\<close>

definition stop :: "pipeline \<Rightarrow> py_error + pipeline" where
  "stop p =
     (let p1 = p\<lparr>running := False\<rparr>
      in case (case q_put 1 None (frame_q p1) of
                 Inl e \<Rightarrow> if e = QueueFull then Inr p1 else Inl e
               | Inr q \<Rightarrow> Inr (p1\<lparr>frame_q := q\<rparr>)) of
           Inl e \<Rightarrow> Inl e
         | Inr p2 \<Rightarrow>
             (case q_put 0 None (text_q p2) of
                Inl e \<Rightarrow> if e = QueueFull then Inr p2 else Inl e
              | Inr q \<Rightarrow> Inr (p2\<lparr>text_q := q\<rparr>)))"

subsection \<open>The capture stage\<close>

datatype cap_source = GstPipeline rat rat | Device int

definition get_capture_source :: "config \<Rightarrow> cap_source" where
  "get_capture_source cfg =
     (if camera_str cfg ''source_type'' = Some ''gstreamer''
      then GstPipeline (dict_get (camera_num cfg) ''width'' 1920)
                       (dict_get (camera_num cfg) ''height'' 1080)
      else Device (py_int (dict_get (camera_num cfg) ''camera_id'' 0)))"

datatype cap_prop = FRAME_WIDTH | FRAME_HEIGHT | BUFFERSIZE

text \<open>
  The state of \<open>_capture_loop\<close>: the shared pipeline, the \<open>cap.set\<close> calls made, whether
  \<open>cap.release()\<close> has been called, and the local \<open>last_push\<close>. One \<open>cap_event\<close> is what
  one test of \<open>while self.running\<close> and the iteration after it meet: whether another
  thread has cleared the flag since the last test, the outcome of \<open>cap.read()\<close>
  (\<open>None\<close> when \<open>ret\<close> is false) and the value of \<open>time.time()\<close>.
\<close>

record capture_state =
  cs_pipe :: pipeline
  cs_props :: "(cap_prop \<times> nat) list"
  cs_released :: bool
  cs_last_push :: rat

record cap_event =
  ce_stop :: bool
  ce_read :: "frame option"
  ce_now :: rat

text \<open>A loop either has left (\<open>Exited\<close>) or is still at its head when the events end.\<close>

datatype 's run = Exited 's | Looping 's

fun run_state :: "'s run \<Rightarrow> 's" where
  "run_state (Exited s) = s"
| "run_state (Looping s) = s"

fun has_exited :: "'s run \<Rightarrow> bool" where
  "has_exited (Exited s) = True"
| "has_exited (Looping s) = False"

text \<open>The body of the \<open>try\<close> of \<open>_capture_loop\<close>: every exception is passed over.\<close>

definition push_frame :: "frame \<Rightarrow> frame option list \<Rightarrow> frame option list" where
  "push_frame f q =
     (if q_full 1 q
      then (case q_get q of
              Inl e \<Rightarrow> q
            | Inr (x, q1) \<Rightarrow> (case q_put 1 (Some f) q1 of Inl e \<Rightarrow> q1 | Inr q2 \<Rightarrow> q2))
      else (case q_put 1 (Some f) q of Inl e \<Rightarrow> q | Inr q2 \<Rightarrow> q2))"

fun capture_while :: "rat \<Rightarrow> cap_event list \<Rightarrow> capture_state \<Rightarrow> capture_state run" where
  "capture_while interval [] s = Looping s"
| "capture_while interval (e # es) s =
     (let s0 = (if ce_stop e then s\<lparr>cs_pipe := (cs_pipe s)\<lparr>running := False\<rparr>\<rparr> else s)
      in if \<not> running (cs_pipe s0) then Exited s0
         else case ce_read e of
                None \<Rightarrow> capture_while interval es s0
              | Some f \<Rightarrow>
                  if ce_now e - cs_last_push s0 < interval then capture_while interval es s0
                  else capture_while interval es
                         (s0\<lparr>cs_last_push := ce_now e,
                             cs_pipe := (cs_pipe s0)\<lparr>frame_q := push_frame f (frame_q (cs_pipe s0))\<rparr>\<rparr>))"

definition capture_interval :: "config \<Rightarrow> rat" where
  "capture_interval cfg = py_max2 (1/20) (dict_get (ocr cfg) ''capture_interval'' (1/10))"

text \<open>\<open>_capture_loop\<close>; \<open>opened\<close> is what \<open>cap.isOpened()\<close> answers.\<close>

definition capture_loop :: "config \<Rightarrow> bool \<Rightarrow> cap_event list \<Rightarrow> pipeline \<Rightarrow> capture_state run" where
  "capture_loop cfg opened events p =
     (let cap_source = get_capture_source cfg;
          interval = capture_interval cfg;
          s0 = \<lparr>cs_pipe = p, cs_props = [], cs_released = False, cs_last_push = 0\<rparr>;
          s1 = (case cap_source of
                  Device i \<Rightarrow>
                    if opened
                    then s0\<lparr>cs_props :=
                            (if dict_get (camera_str cfg) ''resolution'' ''720p'' = ''1080p''
                             then [(FRAME_WIDTH, 1920), (FRAME_HEIGHT, 1080)]
                             else [(FRAME_WIDTH, 1280), (FRAME_HEIGHT, 720)])
                            @ [(BUFFERSIZE, 1)]\<rparr>
                    else s0
                | GstPipeline w h \<Rightarrow> s0)
      in if \<not> opened then Exited (s1\<lparr>cs_pipe := (cs_pipe s1)\<lparr>running := False\<rparr>\<rparr>)
         else case capture_while interval events s1 of
                Looping s \<Rightarrow> Looping s
              | Exited s \<Rightarrow> Exited (s\<lparr>cs_released := True\<rparr>))"

subsection \<open>The recognition stage\<close>

text \<open>
  The locals of \<open>_process_loop\<close>. One \<open>proc_event\<close> is what one iteration meets: whether
  another thread has cleared the flag since the last test, a frame the capture stage has
  pushed since then (if any), the outcome of \<open>self.ocr.extract_text(frame)\<close> (\<open>None\<close> when
  it raises) and the value of \<open>time.time()\<close>. A \<open>get\<close> on an empty queue ends in
  \<open>queue.Empty\<close> when its timeout ends.
\<close>

record proc_locals =
  pl_last_text :: string
  pl_last_time :: rat
  pl_frame_count :: nat

record proc_event =
  pe_stop :: bool
  pe_arrival :: "frame option"
  pe_ocr :: "OCRResult option"
  pe_now :: rat

definition history_append :: "rat \<Rightarrow> history_entry \<Rightarrow> history_entry list \<Rightarrow> history_entry list" where
  "history_append max_history e h =
     (let h1 = h @ [e] in if of_nat (length h1) > max_history then tl h1 else h1)"

text \<open>The body of the loop once a frame has been received.\<close>

definition process_frame ::
  "int \<Rightarrow> rat \<Rightarrow> config \<Rightarrow> OCRResult option \<Rightarrow> rat \<Rightarrow> proc_locals \<times> pipeline
   \<Rightarrow> proc_locals \<times> pipeline" where
  "process_frame min_len min_conf cfg res now s =
     (let loc = (fst s)\<lparr>pl_frame_count := pl_frame_count (fst s) + 1\<rparr>;
          p = snd s
      in case res of
           None \<Rightarrow> (loc, p)
         | Some ocr_res \<Rightarrow>
             let txt = strip (ocr_text ocr_res)
             in if txt = [] \<or> int (length txt) < min_len then (loc, p)
                else if ocr_confidence ocr_res < min_conf then (loc, p)
                else if txt = pl_last_text loc \<and> now - pl_last_time loc < 3/2 then (loc, p)
                else (loc\<lparr>pl_last_text := txt, pl_last_time := now\<rparr>,
                      p\<lparr>history :=
                          history_append (dict_get (app cfg) ''max_history'' 50)
                            \<lparr>ts = now, h_text = txt, h_engine = ocr_engine ocr_res,
                             h_confidence = ocr_confidence ocr_res\<rparr>
                            (history p),
                        last_text := txt,
                        text_q := text_q p @ [Some txt]\<rparr>))"

fun process_while ::
  "int \<Rightarrow> rat \<Rightarrow> config \<Rightarrow> proc_event list \<Rightarrow> proc_locals \<times> pipeline
   \<Rightarrow> (proc_locals \<times> pipeline) run" where
  "process_while min_len min_conf cfg [] s = Looping s"
| "process_while min_len min_conf cfg (e # es) s =
     (let loc = fst s;
          p0 = (if pe_stop e then (snd s)\<lparr>running := False\<rparr> else snd s)
      in if \<not> running p0 then Exited (loc, p0)
         else let p1 = (case pe_arrival e of
                          None \<Rightarrow> p0
                        | Some f \<Rightarrow> p0\<lparr>frame_q := push_frame f (frame_q p0)\<rparr>)
              in case q_get (frame_q p1) of
                   Inl err \<Rightarrow> process_while min_len min_conf cfg es (loc, p1)
                 | Inr (None, q) \<Rightarrow> Exited (loc, p1\<lparr>frame_q := q\<rparr>)
                 | Inr (Some fr, q) \<Rightarrow>
                     process_while min_len min_conf cfg es
                       (process_frame min_len min_conf cfg (pe_ocr e) (pe_now e)
                          (loc, p1\<lparr>frame_q := q\<rparr>)))"

text \<open>Accepted insertions one after the other, as the loop makes them.\<close>

fun history_inserts :: "rat \<Rightarrow> history_entry list \<Rightarrow> history_entry list \<Rightarrow> history_entry list" where
  "history_inserts max_history [] h = h"
| "history_inserts max_history (e # es) h =
     history_inserts max_history es (history_append max_history e h)"

definition process_loop :: "config \<Rightarrow> proc_event list \<Rightarrow> pipeline \<Rightarrow> (proc_locals \<times> pipeline) run" where
  "process_loop cfg events p =
     process_while (py_int (dict_get (ocr cfg) ''min_text_len'' 3))
       (dict_get (ocr cfg) ''min_confidence'' (1/2)) cfg events
       (\<lparr>pl_last_text = [], pl_last_time = 0, pl_frame_count = 0\<rparr>, p)"

section \<open>The speech engine (core/tts\_engine.py)\<close>

text \<open>
  The backends are outside the repository; \<open>tts_env\<close> holds what they answer: the two
  ways \<open>speak\<close> calls the primary backend (\<open>coqui.tts(text=, speaker=, speed=)\<close> and
  \<open>coqui.tts(text)\<close>), \<open>sf.read\<close>, whether \<open>sd.play\<close>/\<open>sd.wait\<close>, \<open>sf.write\<close> and
  the opening of the written file succeed, and \<open>os.name\<close>. What \<open>speak\<close> does is the
  list of its calls to the outside, in order.
\<close>

datatype audio = AudioPath string | AudioArray "rat list" | AudioOther

datatype os_name = Posix | Nt | OtherOs

record tts_env =
  coqui_tts_full :: "string \<Rightarrow> string option \<Rightarrow> rat \<Rightarrow> py_error + audio"
  coqui_tts_plain :: "string \<Rightarrow> py_error + audio"
  sf_read :: "string \<Rightarrow> py_error + (rat list \<times> nat)"
  sd_play_ok :: bool
  sf_write_ok :: bool
  open_ok :: bool
  os_kind :: os_name

datatype tts_action =
    CoquiTtsFull string "string option" rat
  | CoquiTtsPlain string
  | SfRead string
  | SdPlay "rat list" nat
  | SfWrite string
  | OpenFile string
  | LogWarning
  | RunEspeakNg int int "string option" string
  | RunPowershell "string option" int int string
  | Print string

text \<open>\<open>TTSEngine\<close>: \<open>coqui_loaded\<close> says that \<open>self.coqui\<close> is not \<open>None\<close>.\<close>

record TTSEngine =
  coqui_loaded :: bool
  last_audio_path :: "string option"

text \<open>\<open>if voice:\<close> holds for a voice that is neither \<open>None\<close> nor empty.\<close>

definition truthy_voice :: "string option \<Rightarrow> string option" where
  "truthy_voice voice = (case voice of None \<Rightarrow> None | Some v \<Rightarrow> if v = [] then None else Some v)"

text \<open>\<open>TTSEngine._espeak\<close>: the command it runs; a failure of the command is logged
  inside and never leaves the method.\<close>

definition espeak :: "tts_env \<Rightarrow> string \<Rightarrow> rat \<Rightarrow> rat \<Rightarrow> string option \<Rightarrow> tts_action list" where
  "espeak env txt speed volume voice =
     (case os_kind env of
        Posix \<Rightarrow> [RunEspeakNg (py_int (150 * speed)) (py_int (100 * volume * 100))
                    (truthy_voice voice) txt]
      | Nt \<Rightarrow> [RunPowershell (truthy_voice voice) (py_int ((speed - 1) * 5))
                 (py_int (100 * volume)) txt]
      | OtherOs \<Rightarrow> [Print txt])"

text \<open>\<open>TTSEngine._play_numpy_audio\<close>: the engine after it, its calls, and the exception
  that leaves it (only a failing \<open>sf.write\<close> does).\<close>

definition play_numpy_audio ::
  "tts_env \<Rightarrow> rat list \<Rightarrow> nat \<Rightarrow> TTSEngine \<Rightarrow> TTSEngine \<times> tts_action list \<times> py_error option" where
  "play_numpy_audio env samples sr e =
     (if sd_play_ok env then (e, [SdPlay samples sr], None)
      else if \<not> sf_write_ok env
           then (e, [SdPlay samples sr, SfWrite ''last_audio.wav''], Some OtherError)
           else (e\<lparr>last_audio_path := Some ''last_audio.wav''\<rparr>,
                 [SdPlay samples sr, SfWrite ''last_audio.wav'', OpenFile ''last_audio.wav''],
                 None))"

text \<open>The \<open>try\<close> block of \<open>speak\<close> on the primary backend: the engine after it, its calls,
  and the exception that leaves it, if any.\<close>

definition coqui_attempt ::
  "tts_env \<Rightarrow> TTSEngine \<Rightarrow> string \<Rightarrow> string option \<Rightarrow> rat
   \<Rightarrow> TTSEngine \<times> tts_action list \<times> py_error option" where
  "coqui_attempt env e txt voice speed =
     (let first = coqui_tts_full env txt voice speed;
          calls = (if first = Inl TypeError
                   then [CoquiTtsFull txt voice speed, CoquiTtsPlain txt]
                   else [CoquiTtsFull txt voice speed]);
          res = (if first = Inl TypeError then coqui_tts_plain env txt else first)
      in case res of
           Inl exc \<Rightarrow> (e, calls, Some exc)
         | Inr (AudioPath path) \<Rightarrow>
             (let e1 = e\<lparr>last_audio_path := Some path\<rparr>
              in case sf_read env path of
                   Inl exc \<Rightarrow> (e1, calls @ [SfRead path], Some exc)
                 | Inr (samples, sr) \<Rightarrow>
                     (case play_numpy_audio env samples sr e1 of
                        (e2, acts, exc) \<Rightarrow> (e2, calls @ [SfRead path] @ acts, exc)))
         | Inr (AudioArray samples) \<Rightarrow>
             (case play_numpy_audio env samples 22050 e of
                (e2, acts, exc) \<Rightarrow> (e2, calls @ acts, exc))
         | Inr AudioOther \<Rightarrow> (e, calls @ [LogWarning], None))"

text \<open>\<open>TTSEngine.speak\<close>.\<close>

definition speak ::
  "tts_env \<Rightarrow> TTSEngine \<Rightarrow> string \<Rightarrow> string option \<Rightarrow> rat \<Rightarrow> rat \<Rightarrow> TTSEngine \<times> tts_action list" where
  "speak env e txt voice speed volume =
     (if txt = [] then (e, [])
      else if coqui_loaded e
      then (case coqui_attempt env e txt voice speed of
              (e1, acts, Some exc) \<Rightarrow> (e1, acts @ [LogWarning] @ espeak env txt speed volume voice)
            | (e1, acts, None) \<Rightarrow> (e1, acts))
      else (e, espeak env txt speed volume voice))"

text \<open>Whether a call belongs to the secondary backend.\<close>

fun is_secondary :: "tts_action \<Rightarrow> bool" where
  "is_secondary (RunEspeakNg r a v t) = True"
| "is_secondary (RunPowershell v r a t) = True"
| "is_secondary (Print t) = True"
| "is_secondary x = False"

subsection \<open>The speech stage\<close>

text \<open>
  One \<open>tts_event\<close> is what one iteration of \<open>_tts_loop\<close> meets: whether another thread
  has cleared the flag since the last test, and a text the recognition stage has pushed
  since then (if any). The state is the engine, the shared pipeline and the calls made.
\<close>

record tts_event =
  te_stop :: bool
  te_arrival :: "string option"

fun tts_while ::
  "tts_env \<Rightarrow> config \<Rightarrow> tts_event list \<Rightarrow> TTSEngine \<times> pipeline \<times> tts_action list
   \<Rightarrow> (TTSEngine \<times> pipeline \<times> tts_action list) run" where
  "tts_while env cfg [] s = Looping s"
| "tts_while env cfg (e # es) s =
     (let eng = fst s;
          calls = snd (snd s);
          p0 = (if te_stop e then (fst (snd s))\<lparr>running := False\<rparr> else fst (snd s))
      in if \<not> running p0 then Exited (eng, p0, calls)
         else let p1 = (case te_arrival e of
                          None \<Rightarrow> p0
                        | Some t \<Rightarrow> p0\<lparr>text_q := text_q p0 @ [Some t]\<rparr>)
              in case q_get (text_q p1) of
                   Inl err \<Rightarrow> tts_while env cfg es (eng, p1, calls)
                 | Inr (None, q) \<Rightarrow> Exited (eng, p1\<lparr>text_q := q\<rparr>, calls)
                 | Inr (Some t, q) \<Rightarrow>
                     (case speak env eng t (tts_voice cfg)
                             (dict_get (tts_num cfg) ''speed'' 1)
                             (dict_get (tts_num cfg) ''volume'' (9/10)) of
                        (eng1, acts) \<Rightarrow>
                          tts_while env cfg es (eng1, p1\<lparr>text_q := q\<rparr>, calls @ acts)))"

section \<open>Example inputs\<close>

text \<open>A primary backend that rejects the keyword call with \<open>TypeError\<close> and answers the
  text-only call with samples, on a machine whose playback device works.\<close>

definition retry_env :: tts_env where
  "retry_env =
     \<lparr>coqui_tts_full = (\<lambda>t v s. Inl TypeError),
      coqui_tts_plain = (\<lambda>t. Inr (AudioArray [0, 1/2])),
      sf_read = (\<lambda>path. Inl OtherError),
      sd_play_ok = True, sf_write_ok = True, open_ok = True, os_kind = Posix\<rparr>"

text \<open>A primary backend that fails with another exception.\<close>

definition failing_env :: tts_env where
  "failing_env =
     \<lparr>coqui_tts_full = (\<lambda>t v s. Inl OtherError),
      coqui_tts_plain = (\<lambda>t. Inl OtherError),
      sf_read = (\<lambda>path. Inl OtherError),
      sd_play_ok = True, sf_write_ok = True, open_ok = True, os_kind = Posix\<rparr>"

definition coqui_engine :: TTSEngine where
  "coqui_engine = \<lparr>coqui_loaded = True, last_audio_path = None\<rparr>"

text \<open>A configuration that supplies a debounce window of five seconds, in both sections.\<close>

definition debounce_cfg :: config where
  "debounce_cfg =
     DEFAULT_CONFIG\<lparr>ocr := (ocr DEFAULT_CONFIG)(''debounce_window'' \<mapsto> 5),
                    app := (app DEFAULT_CONFIG)(''debounce_window'' \<mapsto> 5)\<rparr>"

definition hello :: OCRResult where
  "hello = \<lparr>ocr_text = ''hello'', ocr_boxes = [], ocr_confidence = 7/10, ocr_engine = ''tesseract''\<rparr>"

definition frame_event :: "nat \<Rightarrow> OCRResult \<Rightarrow> rat \<Rightarrow> proc_event" where
  "frame_event n res now =
     \<lparr>pe_stop = False, pe_arrival = Some (Frame n), pe_ocr = Some res, pe_now = now\<rparr>"

definition idle_event :: proc_event where
  "idle_event = \<lparr>pe_stop = False, pe_arrival = None, pe_ocr = None, pe_now = 0\<rparr>"

definition entry :: "nat \<Rightarrow> history_entry" where
  "entry n = \<lparr>ts = of_nat n, h_text = ''hello'', h_engine = ''tesseract'', h_confidence = 7/10\<rparr>"

section \<open>Properties of the recognition engine\<close>

lemma isalnum_not_isspace: "isalnum c \<Longrightarrow> \<not> isspace c"
  unfolding isalnum_def isspace_def Let_def by arith

lemma dropWhile_keeps: "x \<in> set xs \<Longrightarrow> \<not> P x \<Longrightarrow> x \<in> set (dropWhile P xs)"
  by (induction xs) auto

lemma strip_subset: "set (strip s) \<subseteq> set s"
proof -
  have "set (dropWhile isspace (rev (dropWhile isspace s))) \<subseteq> set (rev (dropWhile isspace s))"
    by (rule set_dropWhileD [THEN subsetI])
  also have "\<dots> \<subseteq> set s"
    using set_dropWhileD [of _ isspace s] by auto
  finally show ?thesis by (simp add: strip_def)
qed

lemma strip_keeps_alnum: "c \<in> set s \<Longrightarrow> isalnum c \<Longrightarrow> c \<in> set (strip s)"
  by (simp add: strip_def dropWhile_keeps isalnum_not_isspace)

lemma alnum_strip_iff: "list_ex isalnum (strip s) = list_ex isalnum s"
  using strip_subset [of s] strip_keeps_alnum [of _ s] by (auto simp: list_ex_iff)

lemma strip_Nil: "strip [] = []"
  by (simp add: strip_def)

lemma plausible_iff:
  "is_plausible_text m t = (\<not> int (length (strip t)) < m \<and> list_ex isalnum (strip t))"
  by (cases "t = []") (auto simp: is_plausible_text_def Let_def strip_Nil)

text \<open>
  C2. For every string, the plausibility filter rejects it if and only if its stripped
  length is below \<open>min_text_len\<close> or it contains no alphanumeric character, whether
  the characters are looked for in the string or in its stripped form; with
  \<open>min_text_len = 2\<close>, \<open>"!!!"\<close> is rejected and \<open>"ok"\<close> is accepted.
\<close>

theorem plausibility_filter_rejects_iff:
  "((\<not> is_plausible_text min_text_len t) =
      (int (length (strip t)) < min_text_len \<or> \<not> (\<exists>c \<in> set t. isalnum c)))
   \<and> ((\<not> is_plausible_text min_text_len t) =
      (int (length (strip t)) < min_text_len \<or> \<not> (\<exists>c \<in> set (strip t). isalnum c)))
   \<and> \<not> is_plausible_text 2 ''!!!'' \<and> is_plausible_text 2 ''ok''"
proof -
  have a: "\<not> is_plausible_text 2 ''!!!''"
    by (simp add: plausible_iff strip_def isspace_def isalnum_def)
  have b: "is_plausible_text 2 ''ok''"
    by (simp add: plausible_iff strip_def isspace_def isalnum_def)
  show ?thesis
    using a b alnum_strip_iff [of t] by (auto simp: plausible_iff list_ex_iff)
qed

theorem plausibility_filter_witness:
  "(\<not> is_plausible_text 2 ''!!!'') = (int (length (strip ''!!!'')) < 2 \<or> \<not> list_ex isalnum ''!!!'')
   \<and> \<not> is_plausible_text 2 ''!!!'' \<and> \<not> list_ex isalnum ''!!!'' \<and> length (strip ''!!!'') = 3"
  using plausibility_filter_rejects_iff [of 2 "''!!!''"]
  by (simp add: strip_def isspace_def isalnum_def)

subsection \<open>Fusion\<close>

lemma key_not_gt_trans: "\<not> key_gt a b \<Longrightarrow> \<not> key_gt b c \<Longrightarrow> \<not> key_gt a c"
  by (cases a; cases b; cases c) (auto split: if_splits)

lemma key_not_gt_refl: "\<not> key_gt a a"
  by (cases a) simp

lemma key_gt_asym: "key_gt a b \<Longrightarrow> \<not> key_gt b a"
  by (cases a; cases b) (auto split: if_splits)

lemma max_from_mem: "max_from b xs \<in> set (b # xs)"
  by (induction xs arbitrary: b) auto

lemma max_from_above_start: "\<not> key_gt (cand_key b) (cand_key (max_from b xs))"
proof (induction xs arbitrary: b)
  case Nil
  show ?case by (simp add: key_not_gt_refl)
next
  case (Cons x xs)
  show ?case
  proof (cases "key_gt (cand_key x) (cand_key b)")
    case True
    then have "\<not> key_gt (cand_key b) (cand_key x)" by (rule key_gt_asym)
    with Cons [of x] True show ?thesis
      using key_not_gt_trans [of "cand_key b" "cand_key x" "cand_key (max_from x xs)"] by auto
  next
    case False
    with Cons [of b] show ?thesis by simp
  qed
qed

lemma max_from_maximal:
  "c \<in> set (b # xs) \<Longrightarrow> \<not> key_gt (cand_key c) (cand_key (max_from b xs))"
proof (induction xs arbitrary: b)
  case Nil
  then show ?case by (simp add: key_not_gt_refl)
next
  case (Cons x xs)
  let ?b' = "if key_gt (cand_key x) (cand_key b) then x else b"
  have step: "\<not> key_gt (cand_key b) (cand_key ?b')" "\<not> key_gt (cand_key x) (cand_key ?b')"
    by (auto simp: key_not_gt_refl dest: key_gt_asym)
  have top: "\<not> key_gt (cand_key ?b') (cand_key (max_from ?b' xs))"
    by (rule max_from_above_start)
  from Cons.prems consider "c = b" | "c = x" | "c \<in> set xs" by auto
  then show ?case
  proof cases
    case 1
    with key_not_gt_trans [OF step(1) top] show ?thesis by simp
  next
    case 2
    with key_not_gt_trans [OF step(2) top] show ?thesis by simp
  next
    case 3
    then have "c \<in> set (?b' # xs)" by simp
    from Cons.IH [OF this] show ?thesis by simp
  qed
qed

lemma not_key_gt_iff:
  "(\<not> key_gt (cand_key c) (cand_key b)) =
     (length (ocr_text (fst c)) < length (ocr_text (fst b))
      \<or> (length (ocr_text (fst c)) = length (ocr_text (fst b)) \<and> snd c \<le> snd b))"
  by (auto simp: cand_key_def)

text \<open>
  C1. For every non-empty list of surviving candidates, fusion selects a candidate of
  the list such that every candidate is shorter, or as long and no more confident; the
  frame's result is that candidate when it passes the two thresholds and the empty result
  otherwise. Given the candidates \<open>("a", 0.9)\<close> and \<open>("abcdef", 0.5)\<close>, fusion selects
  \<open>"abcdef"\<close>, and with the default thresholds that is the frame's text.
\<close>

theorem fusion_selects_longest_then_most_confident:
  "(candidates \<noteq> [] \<longrightarrow>
      (\<exists>best. select_best candidates = Inr best \<and> best \<in> set candidates
         \<and> (\<forall>c \<in> set candidates.
               length (ocr_text (fst c)) < length (ocr_text (fst best))
               \<or> (length (ocr_text (fst c)) = length (ocr_text (fst best)) \<and> snd c \<le> snd best))
         \<and> fuse min_text_len min_confidence candidates =
             (if ocr_text (fst best) \<noteq> [] \<and> min_text_len \<le> int (length (ocr_text (fst best)))
                 \<and> min_confidence \<le> snd best
              then fst best else empty_result)))
   \<and> select_best [cand ''a'' (9/10) ''tesseract'', cand ''abcdef'' (1/2) ''paddle'']
       = Inr (cand ''abcdef'' (1/2) ''paddle'')
   \<and> ocr_text (fuse 2 (2/5) [cand ''a'' (9/10) ''tesseract'', cand ''abcdef'' (1/2) ''paddle''])
       = ''abcdef''"
proof (intro conjI impI)
  assume ne: "candidates \<noteq> []"
  then obtain c0 cs where cs: "candidates = c0 # cs" by (cases candidates) auto
  let ?best = "max_from c0 cs"
  have sel: "select_best candidates = Inr ?best" by (simp add: select_best_def cs)
  have mem: "?best \<in> set candidates" using max_from_mem [of c0 cs] by (simp add: cs)
  have mx: "\<forall>c \<in> set candidates.
                 length (ocr_text (fst c)) < length (ocr_text (fst ?best))
                 \<or> (length (ocr_text (fst c)) = length (ocr_text (fst ?best)) \<and> snd c \<le> snd ?best)"
    using max_from_maximal [of _ c0 cs] by (simp only: cs not_key_gt_iff [symmetric]) blast
  have fu: "fuse min_text_len min_confidence candidates =
               (if ocr_text (fst ?best) \<noteq> [] \<and> min_text_len \<le> int (length (ocr_text (fst ?best)))
                   \<and> min_confidence \<le> snd ?best
                then fst ?best else empty_result)"
    using ne by (simp add: fuse_def sel split: prod.splits)
  from sel mem mx fu
  show "\<exists>best. select_best candidates = Inr best \<and> best \<in> set candidates
           \<and> (\<forall>c \<in> set candidates.
                 length (ocr_text (fst c)) < length (ocr_text (fst best))
                 \<or> (length (ocr_text (fst c)) = length (ocr_text (fst best)) \<and> snd c \<le> snd best))
           \<and> fuse min_text_len min_confidence candidates =
               (if ocr_text (fst best) \<noteq> [] \<and> min_text_len \<le> int (length (ocr_text (fst best)))
                   \<and> min_confidence \<le> snd best
                then fst best else empty_result)"
    by blast
next
  show "select_best [cand ''a'' (9/10) ''tesseract'', cand ''abcdef'' (1/2) ''paddle'']
           = Inr (cand ''abcdef'' (1/2) ''paddle'')"
    by (simp add: select_best_def cand_def cand_key_def)
next
  show "ocr_text (fuse 2 (2/5) [cand ''a'' (9/10) ''tesseract'', cand ''abcdef'' (1/2) ''paddle''])
           = ''abcdef''"
    by (simp add: fuse_def select_best_def cand_def cand_key_def)
qed

theorem fusion_selects_witness:
  "[cand ''a'' (9/10) ''tesseract'', cand ''abcdef'' (1/2) ''paddle''] \<noteq> []
   \<and> select_best [cand ''a'' (9/10) ''tesseract'', cand ''abcdef'' (1/2) ''paddle'']
       = Inr (cand ''abcdef'' (1/2) ''paddle'')
   \<and> cand ''abcdef'' (1/2) ''paddle''
       \<in> set [cand ''a'' (9/10) ''tesseract'', cand ''abcdef'' (1/2) ''paddle'']
   \<and> fuse 2 (2/5) [cand ''a'' (9/10) ''tesseract'', cand ''abcdef'' (1/2) ''paddle'']
       = fst (cand ''abcdef'' (1/2) ''paddle'')"
proof -
  let ?cs = "[cand ''a'' (9/10) ''tesseract'', cand ''abcdef'' (1/2) ''paddle'']"
  let ?b = "cand ''abcdef'' (1/2) ''paddle''"
  note t = fusion_selects_longest_then_most_confident [of ?cs 2 "2/5"]
  have ne: "?cs \<noteq> []" by simp
  from t have sel: "select_best ?cs = Inr ?b" by (rule conjunct2 [THEN conjunct1])
  from t ne obtain best where b: "select_best ?cs = Inr best" "best \<in> set ?cs"
    "fuse 2 (2/5) ?cs =
       (if ocr_text (fst best) \<noteq> [] \<and> 2 \<le> int (length (ocr_text (fst best))) \<and> 2/5 \<le> snd best
        then fst best else empty_result)"
    by blast
  from b(1) sel have eq: "best = ?b" by simp
  have pass: "ocr_text (fst ?b) \<noteq> [] \<and> 2 \<le> int (length (ocr_text (fst ?b))) \<and> 2/5 \<le> snd ?b"
    by (simp add: cand_def)
  from b(3) pass have "fuse 2 (2/5) ?cs = fst ?b" unfolding eq by simp
  with ne sel b(2) show ?thesis unfolding eq by blast
qed

section \<open>Properties of the controller\<close>

text \<open>
  C8. \<open>start()\<close> on a running pipeline changes nothing, so a second \<open>start()\<close> leaves the
  state of the first: starting a new pipeline twice has started exactly the three workers
  once, and \<open>threads\<close> holds exactly them.
\<close>

theorem start_idempotent:
  "(running p \<longrightarrow> start p = p)
   \<and> start (start p) = start p
   \<and> spawned (start (start new_pipeline)) = [Capture, Process, Tts]
   \<and> threads (start (start new_pipeline)) = [Capture, Process, Tts]
   \<and> running (start (start new_pipeline))"
  by (simp add: start_def new_pipeline_def)

theorem start_idempotent_witness:
  "running (start new_pipeline) \<and> start (start new_pipeline) = start new_pipeline
   \<and> spawned (start new_pipeline) = [Capture, Process, Tts]"
  using start_idempotent [of "start new_pipeline"]
  by (simp add: start_def new_pipeline_def)

text \<open>
  C9. \<open>stop()\<close> on a new, stopped pipeline raises nothing, but it is not a no-op: it
  leaves a \<open>None\<close> sentinel in each queue. After the next \<open>start()\<close> the recognition
  worker receives the sentinel from the frame queue and leaves its loop, and so does the
  speech worker on the text queue, even with a text pushed behind the sentinel.
\<close>

theorem stop_while_stopped_leaves_sentinels:
  "stop new_pipeline = Inr (new_pipeline\<lparr>frame_q := [None], text_q := [None]\<rparr>)
   \<and> stop new_pipeline \<noteq> Inr new_pipeline
   \<and> has_exited (process_loop DEFAULT_CONFIG [idle_event]
        (start (new_pipeline\<lparr>frame_q := [None], text_q := [None]\<rparr>)))
   \<and> has_exited (tts_while failing_env DEFAULT_CONFIG [\<lparr>te_stop = False, te_arrival = Some ''hello''\<rparr>]
        (coqui_engine, start (new_pipeline\<lparr>frame_q := [None], text_q := [None]\<rparr>), []))"
  by (simp add: stop_def new_pipeline_def q_put_def q_full_def q_get_def start_def
      process_loop_def idle_event_def Let_def)

section \<open>Properties of the capture stage\<close>

lemma py_max2_max: "py_max2 a b = max a b"
  by (simp add: py_max2_def max_def)

text \<open>
  C10. When the configuration supplies a capture interval \<open>v\<close>, the interval the capture
  stage throttles with is \<open>max(0.05, v)\<close>, hence \<open>0.05\<close> for every \<open>v\<close> below it: the
  first frame read at time \<open>t\<close> is pushed exactly when \<open>t\<close> is at least that interval
  (\<open>last_push\<close> starts at \<open>0\<close>).
\<close>

theorem capture_interval_clamped:
  "(ocr cfg ''capture_interval'' = Some v \<longrightarrow> capture_interval cfg = max (1/20) v)
   \<and> (ocr cfg ''capture_interval'' = Some v \<and> v < 1/20 \<longrightarrow> capture_interval cfg = 1/20)
   \<and> (ocr cfg ''capture_interval'' = Some v \<and> running p \<longrightarrow>
        frame_q (cs_pipe (run_state (capture_loop cfg True
                   [\<lparr>ce_stop = False, ce_read = Some f, ce_now = t\<rparr>] p)))
          = (if t < max (1/20) v then frame_q p else push_frame f (frame_q p)))"
  by (auto simp: capture_interval_def py_max2_max dict_get_def capture_loop_def Let_def
      split: cap_source.splits)

theorem capture_interval_clamped_witness:
  "capture_interval (DEFAULT_CONFIG\<lparr>ocr := [''capture_interval'' \<mapsto> 1/100]\<rparr>) = 1/20
   \<and> frame_q (cs_pipe (run_state (capture_loop (DEFAULT_CONFIG\<lparr>ocr := [''capture_interval'' \<mapsto> 1/100]\<rparr>) True
                   [\<lparr>ce_stop = False, ce_read = Some (Frame 1), ce_now = 3/100\<rparr>] (start new_pipeline)))) = []"
  using capture_interval_clamped [of "DEFAULT_CONFIG\<lparr>ocr := [''capture_interval'' \<mapsto> 1/100]\<rparr>"
      "1/100" "start new_pipeline" "Frame 1" "3/100"]
  by (simp add: start_def new_pipeline_def)

lemma capture_while_released:
  "cs_released (run_state (capture_while i es s)) = cs_released s"
  by (induction es arbitrary: s) (auto simp: Let_def split: option.splits)

lemma capture_while_exit_not_running:
  "capture_while i es s = Exited s' \<Longrightarrow> \<not> running (cs_pipe s')"
  by (induction es arbitrary: s) (auto simp: Let_def split: option.splits if_splits)

lemma capture_while_stops:
  "\<exists>e \<in> set es. ce_stop e \<Longrightarrow> has_exited (capture_while i es s)"
  by (induction es arbitrary: s) (auto simp: Let_def split: option.splits)

text \<open>
  C5, as stated, fails on the fatal path: when the source could not be opened the stage
  clears the running flag and leaves without calling \<open>cap.release()\<close>.
\<close>

theorem capture_fatal_path_no_release:
  "capture_loop DEFAULT_CONFIG False [] (start new_pipeline)
     = Exited \<lparr>cs_pipe = (start new_pipeline)\<lparr>running := False\<rparr>, cs_props = [],
               cs_released = False, cs_last_push = 0\<rparr>"
  by (simp add: capture_loop_def Let_def get_capture_source_def DEFAULT_CONFIG_def)

text \<open>
  C5, amended. Whenever the capture stage has left, the running flag is clear, and the
  source has been released exactly when it had been opened: every exit through the read
  loop releases it, the fatal path does not. The stage does leave when the source could
  not be opened, and when another thread clears the flag.
\<close>

theorem capture_release_on_loop_exit:
  "(capture_loop cfg opened events p = Exited s \<longrightarrow>
      cs_released s = opened \<and> \<not> running (cs_pipe s))
   \<and> (\<not> opened \<longrightarrow> has_exited (capture_loop cfg opened events p))
   \<and> (opened \<and> (\<exists>e \<in> set events. ce_stop e) \<longrightarrow> has_exited (capture_loop cfg opened events p))"
proof -
  have one: "cs_released s = opened \<and> \<not> running (cs_pipe s)"
    if ex: "capture_loop cfg opened events p = Exited s"
  proof (cases opened)
    case False
    with ex show ?thesis
      by (auto simp: capture_loop_def Let_def split: cap_source.splits)
  next
    case True
    with ex obtain s1 s2 where w: "capture_while (capture_interval cfg) events s1 = Exited s2"
      and s: "s = s2\<lparr>cs_released := True\<rparr>"
      by (auto simp: capture_loop_def Let_def split: run.splits)
    from capture_while_exit_not_running [OF w] s True show ?thesis by simp
  qed
  have two: "has_exited (capture_loop cfg opened events p)" if "\<not> opened"
    using that by (simp add: capture_loop_def Let_def)
  have three: "has_exited (capture_loop cfg opened events p)"
    if a: "opened \<and> (\<exists>e \<in> set events. ce_stop e)"
  proof -
    from a have w: "\<And>s1. \<exists>s2. capture_while (capture_interval cfg) events s1 = Exited s2"
      using capture_while_stops [of events "capture_interval cfg"]
      by (metis has_exited.elims(2))
    from a show ?thesis
      unfolding capture_loop_def Let_def
      by (cases "get_capture_source cfg")
         (use w in \<open>auto split: run.splits\<close>, (metis run.distinct(1))+)
  qed
  from one two three show ?thesis by blast
qed

theorem capture_release_witness:
  "capture_loop DEFAULT_CONFIG True
      [\<lparr>ce_stop = False, ce_read = Some (Frame 1), ce_now = 1\<rparr>,
       \<lparr>ce_stop = True, ce_read = None, ce_now = 2\<rparr>] (start new_pipeline)
     = Exited \<lparr>cs_pipe = (start new_pipeline)\<lparr>running := False, frame_q := [Some (Frame 1)]\<rparr>,
               cs_props = [(FRAME_WIDTH, 1280), (FRAME_HEIGHT, 720), (BUFFERSIZE, 1)],
               cs_released = True, cs_last_push = 1\<rparr>
   \<and> cs_released \<lparr>cs_pipe = (start new_pipeline)\<lparr>running := False, frame_q := [Some (Frame 1)]\<rparr>,
               cs_props = [(FRAME_WIDTH, 1280), (FRAME_HEIGHT, 720), (BUFFERSIZE, 1)],
               cs_released = True, cs_last_push = 1\<rparr> = True"
proof -
  let ?evs = "[\<lparr>ce_stop = False, ce_read = Some (Frame 1), ce_now = 1\<rparr>,
       \<lparr>ce_stop = True, ce_read = None, ce_now = 2\<rparr>]"
  let ?s = "\<lparr>cs_pipe = (start new_pipeline)\<lparr>running := False, frame_q := [Some (Frame 1)]\<rparr>,
               cs_props = [(FRAME_WIDTH, 1280), (FRAME_HEIGHT, 720), (BUFFERSIZE, 1)],
               cs_released = True, cs_last_push = 1\<rparr>"
  have ev: "capture_loop DEFAULT_CONFIG True ?evs (start new_pipeline) = Exited ?s"
    by (simp add: capture_loop_def Let_def get_capture_source_def DEFAULT_CONFIG_def
        capture_interval_def py_max2_def dict_get_def start_def new_pipeline_def
        push_frame_def q_full_def q_put_def q_get_def py_int_def)
  from capture_release_on_loop_exit [of DEFAULT_CONFIG True ?evs "start new_pipeline" ?s] ev
  show ?thesis by simp
qed


end
